theory Spec2Isabelle
  imports Main "HOL-Library.Word" "HOL-Library.Monad_Syntax"
begin

section \<open>Integers and arrays of the device code\<close>

text \<open>
  \<^verbatim>\<open>block_info.h\<close> works on C++ \<^verbatim>\<open>int\<close> values (32 bits on the device) and on
  values of the template parameter \<^verbatim>\<open>index_t\<close> of the accessors. An \<^verbatim>\<open>int\<close> is a
  \<open>32 word\<close>: \<open>+\<close>, \<open>-\<close> and \<open>*\<close> wrap around, as the device's integer
  instructions do, and \<open>sint\<close> reads the value. \<^verbatim>\<open>index_t\<close> is declared outside this
  file, so it is a parameter: a \<open>'w word\<close> of any width. For an integer type at
  least as wide as \<^verbatim>\<open>int\<close>, signed or unsigned, the conversions of C++ are
  \<^item> \<^verbatim>\<open>int\<close> to \<^verbatim>\<open>index_t\<close> (the usual arithmetic conversions of \<^verbatim>\<open>int * index_t\<close>,
    and a \<^verbatim>\<open>return\<close> of an \<^verbatim>\<open>int\<close>): sign extension, \<open>scast\<close>;
  \<^item> \<^verbatim>\<open>uint32_t\<close> to \<^verbatim>\<open>index_t\<close>: zero extension, \<open>ucast\<close>;
  \<^item> \<^verbatim>\<open>index_t\<close> to \<^verbatim>\<open>int\<close> (the cast \<^verbatim>\<open>int(...)\<close>): the low 32 bits, \<open>ucast\<close>.
\<close>

type_synonym int32 = "32 word"

text \<open>
  A \<^verbatim>\<open>const int*\<close> is \<open>None\<close> for \<^verbatim>\<open>nullptr\<close> and otherwise the array it points
  to. The code checks no index; reading through \<^verbatim>\<open>nullptr\<close> or outside the array
  is undefined behaviour, which the model returns as \<open>None\<close>.
\<close>

type_synonym int_ptr = "int32 list option"

definition index_at :: "int32 list \<Rightarrow> int32 \<Rightarrow> int32 option" where
  "index_at xs i =
     (if 0 \<le> sint i \<and> nat (sint i) < length xs then Some (xs ! nat (sint i)) else None)"

fun subscript :: "int_ptr \<Rightarrow> int32 \<Rightarrow> int32 option" where
  "subscript None i = None"
| "subscript (Some xs) i = index_at xs i"

section \<open>The parameters and the block information\<close>

text \<open>
  \<^verbatim>\<open>Params\<close> is a template parameter of the constructor: any type with the members
  read below, here a record scheme. Each member has the type of the \<^verbatim>\<open>BlockInfo\<close>
  member it initialises. Two members carry the prefix \<open>params_\<close>, because
  \<^verbatim>\<open>BlockInfo\<close> has members of the same names. \<open>knew_ptr\<close> is only compared with
  \<^verbatim>\<open>nullptr\<close>: \<open>None\<close> is \<^verbatim>\<open>nullptr\<close>, \<open>Some a\<close> an address.
\<close>

record Params =
  cu_seqlens_q :: int_ptr
  cu_seqlens_k :: int_ptr
  is_seqlens_k_cumulative :: bool
  seqlen_q :: int32
  seqlen_k :: int32
  knew_ptr :: "nat option"
  seqlen_knew :: int32
  params_pg_attn_block_tables_ptr :: int_ptr
  pg_attn_block_tables_batch_stride :: int32
  params_pg_attn_cache_block_stride :: int32

record BlockInfo =
  sum_s_q :: int32
  sum_s_k :: int32
  actual_seqlen_q :: int32
  seqlen_k_cache :: int32
  actual_seqlen_k :: int32
  pg_attn_block_tables_ptr :: int_ptr
  pg_attn_block_batch_stride :: int32
  pg_attn_cache_block_stride :: int32
  actual_batch_size :: int_ptr

subsection \<open>The constructor\<close>

text \<open>
  One definition for each member initialiser that reads an array, in the order of
  the initialiser list (which is the order of declaration). \<open>Varlen\<close> is the
  template parameter of \<^verbatim>\<open>BlockInfo\<close>.
\<close>

definition init_sum_s_q :: "bool \<Rightarrow> 'a Params_scheme \<Rightarrow> int32 \<Rightarrow> int32 option" where
  "init_sum_s_q Varlen params bidb =
     (if \<not> Varlen \<or> cu_seqlens_q params = None then Some (- 1)
      else subscript (cu_seqlens_q params) bidb)"

definition init_sum_s_k :: "bool \<Rightarrow> 'a Params_scheme \<Rightarrow> int32 \<Rightarrow> int32 option" where
  "init_sum_s_k Varlen params bidb =
     (if \<not> Varlen \<or> cu_seqlens_k params = None \<or> \<not> is_seqlens_k_cumulative params
      then Some (- 1)
      else subscript (cu_seqlens_k params) bidb)"

definition init_actual_seqlen_q ::
  "bool \<Rightarrow> 'a Params_scheme \<Rightarrow> int32 \<Rightarrow> int32 \<Rightarrow> int32 option" where
  "init_actual_seqlen_q Varlen params bidb s_q =
     (if \<not> Varlen \<or> cu_seqlens_q params = None then Some (seqlen_q params)
      else do { hi \<leftarrow> subscript (cu_seqlens_q params) (bidb + 1); Some (hi - s_q) })"

definition init_seqlen_k_cache ::
  "bool \<Rightarrow> 'a Params_scheme \<Rightarrow> int32 \<Rightarrow> int32 \<Rightarrow> int32 option" where
  "init_seqlen_k_cache Varlen params bidb s_k =
     (if \<not> Varlen \<or> cu_seqlens_k params = None then Some (seqlen_k params)
      else if is_seqlens_k_cumulative params
      then do { hi \<leftarrow> subscript (cu_seqlens_k params) (bidb + 1); Some (hi - s_k) }
      else subscript (cu_seqlens_k params) bidb)"

text \<open>
  The member \<open>actual_batch_size\<close> has no initialiser: it keeps the indeterminate
  value \<open>uninit\<close> of the storage the object is built in.
\<close>

definition BlockInfo_init ::
  "bool \<Rightarrow> 'a Params_scheme \<Rightarrow> int32 \<Rightarrow> int_ptr \<Rightarrow> BlockInfo option" where
  "BlockInfo_init Varlen params bidb uninit = do {
     s_q \<leftarrow> init_sum_s_q Varlen params bidb;
     s_k \<leftarrow> init_sum_s_k Varlen params bidb;
     a_q \<leftarrow> init_actual_seqlen_q Varlen params bidb s_q;
     k_c \<leftarrow> init_seqlen_k_cache Varlen params bidb s_k;
     Some \<lparr> sum_s_q = s_q, sum_s_k = s_k, actual_seqlen_q = a_q, seqlen_k_cache = k_c,
            actual_seqlen_k = k_c + (if knew_ptr params = None then 0 else seqlen_knew params),
            pg_attn_block_tables_ptr = params_pg_attn_block_tables_ptr params,
            pg_attn_block_batch_stride = pg_attn_block_tables_batch_stride params,
            pg_attn_cache_block_stride = params_pg_attn_cache_block_stride params,
            actual_batch_size = uninit \<rparr>
   }"

subsection \<open>The accessors\<close>

definition q_offset :: "BlockInfo \<Rightarrow> 'w::len word \<Rightarrow> 'w word \<Rightarrow> int32 \<Rightarrow> 'w word" where
  "q_offset bi batch_stride row_stride bidb =
     (if sum_s_q bi = - 1 then scast bidb * batch_stride
      else ucast (sum_s_q bi) * row_stride)"

definition k_offset :: "BlockInfo \<Rightarrow> 'w::len word \<Rightarrow> 'w word \<Rightarrow> int32 \<Rightarrow> 'w word" where
  "k_offset bi batch_stride row_stride bidb =
     (if sum_s_k bi = - 1 then scast bidb * batch_stride
      else ucast (sum_s_k bi) * row_stride)"

text \<open>
  In \<^verbatim>\<open>block_id * k_block_n * row_stride\<close> the first product is of two \<^verbatim>\<open>int\<close>s and
  is converted to \<^verbatim>\<open>index_t\<close> for the second. \<^verbatim>\<open>pg_offset\<close> is an \<^verbatim>\<open>int\<close>, converted
  by the \<^verbatim>\<open>return\<close>.
\<close>

definition k_offset_pg ::
  "BlockInfo \<Rightarrow> 'w::len word \<Rightarrow> 'w word \<Rightarrow> int32 \<Rightarrow> int32 \<Rightarrow> int32 \<Rightarrow> 'w word option" where
  "k_offset_pg bi batch_stride row_stride bidb block_id k_block_n =
     (if pg_attn_block_tables_ptr bi = None
      then Some (k_offset bi batch_stride row_stride bidb
                 + scast (block_id * k_block_n) * row_stride)
      else do {
        e \<leftarrow> subscript (pg_attn_block_tables_ptr bi)
               (bidb * pg_attn_block_batch_stride bi + block_id);
        Some (scast (e * pg_attn_cache_block_stride bi))
      })"

text \<open>
  In \<^verbatim>\<open>-int(k_block_n * row_stride)\<close> the product is taken in \<^verbatim>\<open>index_t\<close>, its low
  32 bits are the \<^verbatim>\<open>int\<close>, and the \<^verbatim>\<open>int\<close> is negated. This is the reading for an
  \<^verbatim>\<open>index_t\<close> at least as wide as \<^verbatim>\<open>int\<close>, 32 bits or more. For a narrower type C++
  promotes \<open>row_stride\<close> to \<^verbatim>\<open>int\<close> before the product, by a signedness that a
  word does not carry; the theorems on the value of the delta are stated for
  \<open>32 \<le> LENGTH('w)\<close>.
\<close>

definition k_advance_offset_pg ::
  "BlockInfo \<Rightarrow> int32 \<Rightarrow> int32 \<Rightarrow> 'w::len word \<Rightarrow> int32 \<Rightarrow> int32 option" where
  "k_advance_offset_pg bi bidb current_block_id row_stride k_block_n =
     (if pg_attn_block_tables_ptr bi = None
      then Some (- ucast (scast k_block_n * row_stride))
      else do {
        prev \<leftarrow> subscript (pg_attn_block_tables_ptr bi)
                  (bidb * pg_attn_block_batch_stride bi + current_block_id - 1);
        cur \<leftarrow> subscript (pg_attn_block_tables_ptr bi)
                 (bidb * pg_attn_block_batch_stride bi + current_block_id);
        Some (prev * pg_attn_cache_block_stride bi - cur * pg_attn_cache_block_stride bi)
      })"

subsection \<open>The descending walk over the pages\<close>

text \<open>
  Modelled from the spec: the loop of the kernel that visits the key blocks from
  the last one backwards is not part of \<^verbatim>\<open>block_info.h\<close>. The spec describes it as
  a walk over decreasing page indices that applies \<open>pagedKeyAdvanceDelta\<close>
  cumulatively: at the block \<open>block_id\<close> the caller adds the delta, an \<^verbatim>\<open>int\<close>
  converted to \<^verbatim>\<open>index_t\<close>, to its running offset and goes on to the block before.
  \<open>advance_walk\<close> makes \<open>n\<close> such steps.
\<close>

fun advance_walk ::
  "BlockInfo \<Rightarrow> int32 \<Rightarrow> 'w::len word \<Rightarrow> int32 \<Rightarrow> int32 \<Rightarrow> nat \<Rightarrow> 'w word \<Rightarrow> 'w word option" where
  "advance_walk bi bidb row_stride k_block_n block_id 0 offset = Some offset"
| "advance_walk bi bidb row_stride k_block_n block_id (Suc n) offset = do {
     delta \<leftarrow> k_advance_offset_pg bi bidb block_id row_stride k_block_n;
     advance_walk bi bidb row_stride k_block_n (block_id - 1) n (offset + scast delta)
   }"

subsection \<open>Valid batch indices, exact deltas\<close>

text \<open>
  Modelled from the spec: the contract of the caller, which \<^verbatim>\<open>block_info.h\<close> does
  not check. A cumulative-offset array, when present, has \<open>batchSize + 1\<close>
  entries at least, and a batch index lies in \<open>[0, batchSize)\<close>: the index is
  not negative, and the index plus one is inside every array that is present.
\<close>

definition valid_batch_index :: "'a Params_scheme \<Rightarrow> int32 \<Rightarrow> bool" where
  "valid_batch_index params bidb =
     (0 \<le> sint bidb
      \<and> (case cu_seqlens_q params of
            None \<Rightarrow> True
          | Some cu \<Rightarrow> 0 \<le> sint (bidb + 1) \<and> nat (sint (bidb + 1)) < length cu)
      \<and> (case cu_seqlens_k params of
            None \<Rightarrow> True
          | Some cu \<Rightarrow> 0 \<le> sint (bidb + 1) \<and> nat (sint (bidb + 1)) < length cu))"

text \<open>
  A value of \<^verbatim>\<open>index_t\<close> is representable as \<^verbatim>\<open>int\<close> when converting it to \<^verbatim>\<open>int\<close> and
  back gives the value: read as a signed number, it lies between \<^verbatim>\<open>INT_MIN\<close> and
  \<^verbatim>\<open>INT_MAX\<close>.
\<close>

definition fits_int :: "'w::len word \<Rightarrow> bool" where
  "fits_int x = (scast (ucast x :: int32) = x)"

text \<open>
  The step of the walk at the block \<open>block_id\<close> is exact when the delta loses
  nothing and no \<^verbatim>\<open>int\<close> operation behind it overflows (a signed overflow is
  undefined in C++ and wraps in the model):
  \<^item> without a page table, \<open>-(k_block_n * row_stride)\<close> is representable as
    \<^verbatim>\<open>int\<close>, and the products \<open>block_id * k_block_n\<close> and
    \<open>(block_id - 1) * k_block_n\<close> of \<open>k_offset_pg\<close> do not overflow;
  \<^item> with a page table, the subtraction of the two page offsets in
    \<open>k_advance_offset_pg\<close> does not overflow.
  \<open>walk_exact\<close> says so of the \<open>n\<close> steps of a walk.
\<close>

definition step_exact :: "BlockInfo \<Rightarrow> int32 \<Rightarrow> 'w::len word \<Rightarrow> int32 \<Rightarrow> int32 \<Rightarrow> bool" where
  "step_exact bi bidb row_stride k_block_n block_id =
     (case pg_attn_block_tables_ptr bi of
        None \<Rightarrow>
          fits_int (- (scast k_block_n * row_stride))
          \<and> sint (block_id * k_block_n) = sint block_id * sint k_block_n
          \<and> sint ((block_id - 1) * k_block_n) = (sint block_id - 1) * sint k_block_n
      | Some table \<Rightarrow>
          (case index_at table (bidb * pg_attn_block_batch_stride bi + block_id - 1) of
             None \<Rightarrow> False
           | Some prev \<Rightarrow>
               (case index_at table (bidb * pg_attn_block_batch_stride bi + block_id) of
                  None \<Rightarrow> False
                | Some cur \<Rightarrow>
                    sint (prev * pg_attn_cache_block_stride bi
                          - cur * pg_attn_cache_block_stride bi)
                      = sint (prev * pg_attn_cache_block_stride bi)
                        - sint (cur * pg_attn_cache_block_stride bi))))"

fun walk_exact :: "BlockInfo \<Rightarrow> int32 \<Rightarrow> 'w::len word \<Rightarrow> int32 \<Rightarrow> int32 \<Rightarrow> nat \<Rightarrow> bool" where
  "walk_exact bi bidb row_stride k_block_n block_id 0 = True"
| "walk_exact bi bidb row_stride k_block_n block_id (Suc n) =
     (step_exact bi bidb row_stride k_block_n block_id
      \<and> walk_exact bi bidb row_stride k_block_n (block_id - 1) n)"

section \<open>Example configurations\<close>

text \<open>
  The scenarios of the spec in one configuration: two batch elements, the query
  offsets \<open>[0, 5, 12]\<close>, the key array \<open>[0, 8, 8]\<close> holding lengths, three new
  keys, and the page table \<open>[[2, 0, 1], [1, 2, 0]]\<close> with pages of 64 elements.
\<close>

definition scenario_params :: Params where
  "scenario_params =
     \<lparr> cu_seqlens_q = Some [0, 5, 12], cu_seqlens_k = Some [0, 8, 8],
       is_seqlens_k_cumulative = False, seqlen_q = 100, seqlen_k = 200,
       knew_ptr = Some 4096, seqlen_knew = 3,
       params_pg_attn_block_tables_ptr = Some [2, 0, 1, 1, 2, 0],
       pg_attn_block_tables_batch_stride = 3,
       params_pg_attn_cache_block_stride = 64 \<rparr>"

text \<open>What the variable-length constructor builds from it for the batch index 1.\<close>

definition scenario_info :: BlockInfo where
  "scenario_info =
     \<lparr> sum_s_q = 5, sum_s_k = - 1, actual_seqlen_q = 7, seqlen_k_cache = 8,
       actual_seqlen_k = 11, pg_attn_block_tables_ptr = Some [2, 0, 1, 1, 2, 0],
       pg_attn_block_batch_stride = 3, pg_attn_cache_block_stride = 64,
       actual_batch_size = None \<rparr>"

text \<open>
  A packed query array whose first offset is negative, no paging, and what the
  constructor builds from it for the batch index 0.
\<close>

definition negative_offset_params :: Params where
  "negative_offset_params =
     \<lparr> cu_seqlens_q = Some [- 2, 3], cu_seqlens_k = Some [- 2, 3],
       is_seqlens_k_cumulative = True, seqlen_q = 0, seqlen_k = 0,
       knew_ptr = None, seqlen_knew = 0,
       params_pg_attn_block_tables_ptr = None,
       pg_attn_block_tables_batch_stride = 0,
       params_pg_attn_cache_block_stride = 0 \<rparr>"

definition negative_offset_info :: BlockInfo where
  "negative_offset_info =
     \<lparr> sum_s_q = - 2, sum_s_k = - 2, actual_seqlen_q = 5, seqlen_k_cache = 5,
       actual_seqlen_k = 5, pg_attn_block_tables_ptr = None,
       pg_attn_block_batch_stride = 0, pg_attn_cache_block_stride = 0,
       actual_batch_size = None \<rparr>"

text \<open>
  Padded sequences of 8 rows for two batch elements, with the identity page table
  \<open>[[0, 1], [0, 1]]\<close> and pages of 4 elements; and what the constructor builds
  from it (the same for every batch index).
\<close>

definition identity_table_params :: Params where
  "identity_table_params =
     \<lparr> cu_seqlens_q = None, cu_seqlens_k = None,
       is_seqlens_k_cumulative = True, seqlen_q = 8, seqlen_k = 8,
       knew_ptr = None, seqlen_knew = 0,
       params_pg_attn_block_tables_ptr = Some [0, 1, 0, 1],
       pg_attn_block_tables_batch_stride = 2,
       params_pg_attn_cache_block_stride = 4 \<rparr>"

definition identity_table_info :: BlockInfo where
  "identity_table_info =
     \<lparr> sum_s_q = - 1, sum_s_k = - 1, actual_seqlen_q = 8, seqlen_k_cache = 8,
       actual_seqlen_k = 8, pg_attn_block_tables_ptr = Some [0, 1, 0, 1],
       pg_attn_block_batch_stride = 2, pg_attn_cache_block_stride = 4,
       actual_batch_size = None \<rparr>"

text \<open>
  Padded sequences of 8 rows in one contiguous cache, without a page table, and
  what the constructor builds from it (the same for every batch index).
\<close>

definition padded_params :: Params where
  "padded_params =
     \<lparr> cu_seqlens_q = None, cu_seqlens_k = None,
       is_seqlens_k_cumulative = True, seqlen_q = 8, seqlen_k = 8,
       knew_ptr = None, seqlen_knew = 0,
       params_pg_attn_block_tables_ptr = None,
       pg_attn_block_tables_batch_stride = 0,
       params_pg_attn_cache_block_stride = 0 \<rparr>"

definition padded_info :: BlockInfo where
  "padded_info =
     \<lparr> sum_s_q = - 1, sum_s_k = - 1, actual_seqlen_q = 8, seqlen_k_cache = 8,
       actual_seqlen_k = 8, pg_attn_block_tables_ptr = None,
       pg_attn_block_batch_stride = 0, pg_attn_cache_block_stride = 0,
       actual_batch_size = None \<rparr>"

text \<open>
  What the constructor with \<open>Varlen = False\<close> builds from the scenarios, for every
  batch index: the padded lengths, though both arrays are present.
\<close>

definition scenario_info_fixed :: BlockInfo where
  "scenario_info_fixed =
     \<lparr> sum_s_q = - 1, sum_s_k = - 1, actual_seqlen_q = 100, seqlen_k_cache = 200,
       actual_seqlen_k = 203, pg_attn_block_tables_ptr = Some [2, 0, 1, 1, 2, 0],
       pg_attn_block_batch_stride = 3, pg_attn_cache_block_stride = 64,
       actual_batch_size = None \<rparr>"

section \<open>Conversions between the integer types\<close>

lemma bit32_top: "bit (x :: int32) n \<Longrightarrow> 31 \<le> n \<Longrightarrow> n = 31"
  using bit_imp_le_length [of x n] by simp

text \<open>Zero and sign extension agree on a value that is not negative.\<close>

lemma nonneg_ucast_scast:
  assumes "0 \<le> sint (x :: int32)"
  shows "(ucast x :: 'w::len word) = scast x"
proof (rule bit_word_eqI)
  fix n assume n: "n < LENGTH('w)"
  have top: "\<not> bit x 31"
    using assms bit_last_iff [of x] by simp
  show "bit (ucast x :: 'w word) n = bit (scast x :: 'w word) n"
  proof (cases "n < 31")
    case True
    then show ?thesis using n by (simp add: bit_simps min_def)
  next
    case False
    then have "\<not> bit x n" using top bit32_top [of x n] by auto
    then show ?thesis using n top False by (simp add: bit_simps min_def)
  qed
qed

text \<open>They agree on every value when the target is no wider than \<^verbatim>\<open>int\<close>.\<close>

lemma narrow_ucast_scast:
  assumes "LENGTH('w::len) \<le> 32"
  shows "(ucast (x :: int32) :: 'w word) = scast x"
proof (rule bit_word_eqI)
  fix n assume n: "n < LENGTH('w)"
  then have "n < 31 \<or> n = 31" using assms by arith
  then show "bit (ucast x :: 'w word) n = bit (scast x :: 'w word) n"
    using n by (auto simp: bit_simps min_def)
qed

text \<open>Converting an \<^verbatim>\<open>int\<close> to a type at least as wide and back gives the \<^verbatim>\<open>int\<close>.\<close>

lemma ucast_scast_32:
  assumes "32 \<le> LENGTH('w::len)"
  shows "(ucast (scast (x :: int32) :: 'w word) :: int32) = x"
proof (rule bit_word_eqI)
  fix n assume n: "n < LENGTH(32)"
  then have "n < 31 \<or> n = 31" by simp arith
  then show "bit (ucast (scast x :: 'w word) :: int32) n = bit x n"
    using n assms by (auto simp: bit_simps min_def)
qed

text \<open>Taking the low 32 bits commutes with \<open>+\<close> and \<open>*\<close>.\<close>

lemma word_of_int_take_bit_32:
  assumes "32 \<le> LENGTH('w::len)"
  shows "(word_of_int (take_bit LENGTH('w) k) :: int32) = word_of_int k"
  using assms by (simp add: word_of_int_eq_iff min_def)

lemma ucast_mult_32:
  assumes "32 \<le> LENGTH('w::len)"
  shows "(ucast ((a :: 'w word) * b) :: int32) = ucast a * ucast b"
proof -
  have "uint (a * b) = take_bit LENGTH('w) (uint a * uint b)"
    by (simp add: uint_word_ariths take_bit_eq_mod)
  then have "(ucast (a * b) :: int32) = word_of_int (take_bit LENGTH('w) (uint a * uint b))"
    by (simp only: ucast_eq)
  also have "\<dots> = word_of_int (uint a * uint b)"
    by (rule word_of_int_take_bit_32 [OF assms])
  also have "\<dots> = ucast a * ucast b"
    by simp
  finally show ?thesis .
qed

lemma ucast_add_32:
  assumes "32 \<le> LENGTH('w::len)"
  shows "(ucast ((a :: 'w word) + b) :: int32) = ucast a + ucast b"
proof -
  have "uint (a + b) = take_bit LENGTH('w) (uint a + uint b)"
    by (simp add: uint_word_ariths take_bit_eq_mod)
  then have "(ucast (a + b) :: int32) = word_of_int (take_bit LENGTH('w) (uint a + uint b))"
    by (simp only: ucast_eq)
  also have "\<dots> = word_of_int (uint a + uint b)"
    by (rule word_of_int_take_bit_32 [OF assms])
  also have "\<dots> = ucast a + ucast b"
    by simp
  finally show ?thesis .
qed

text \<open>A product of two \<^verbatim>\<open>int\<close>s that does not overflow converts as the product.\<close>

lemma scast_mult_fits:
  assumes "sint (a * b) = sint a * sint (b :: int32)"
  shows "(scast (a * b) :: 'w::len word) = scast a * scast b"
proof -
  have "(scast (a * b) :: 'w word) = of_int (sint (a * b))"
    by (rule of_int_sint [symmetric])
  also have "\<dots> = of_int (sint a) * of_int (sint b)"
    by (simp only: assms of_int_mult)
  also have "\<dots> = scast a * scast b"
    by (simp only: of_int_sint)
  finally show ?thesis .
qed

text \<open>Negation commutes with taking the low 32 bits.\<close>

lemma ucast_minus_32:
  assumes "32 \<le> LENGTH('w::len)"
  shows "(ucast (- (x :: 'w word)) :: int32) = - ucast x"
proof -
  have "(ucast (- x) :: int32) + ucast x = ucast (- x + x)"
    by (rule ucast_add_32 [OF assms, symmetric])
  then have "(ucast (- x) :: int32) + ucast x = 0"
    by simp
  then show ?thesis
    by (simp add: eq_neg_iff_add_eq_0)
qed

text \<open>
  The values representable as \<^verbatim>\<open>int\<close> are those between \<^verbatim>\<open>INT_MIN\<close> and \<^verbatim>\<open>INT_MAX\<close>.
\<close>

lemma sint_ucast_32:
  assumes "32 \<le> LENGTH('w::len)"
  shows "sint (ucast (x :: 'w word) :: int32) = signed_take_bit 31 (sint x)"
proof -
  have "min 31 (LENGTH('w) - Suc 0) = 31"
    using assms by simp
  then have "signed_take_bit 31 (sint x) = signed_take_bit 31 (uint x)"
    by (simp add: sint_uint)
  then show ?thesis
    by (simp add: signed_ucast_eq)
qed

lemma fits_int_range:
  assumes "32 \<le> LENGTH('w::len)"
  shows "fits_int (x :: 'w word) \<longleftrightarrow> - (2 ^ 31) \<le> sint x \<and> sint x < 2 ^ 31"
proof
  assume "fits_int x"
  then have "sint x = sint (scast (ucast x :: int32) :: 'w word)"
    by (simp add: fits_int_def)
  also have "\<dots> = sint (ucast x :: int32)"
    using assms by (intro sint_up_scast) (simp add: is_up)
  also have "\<dots> = signed_take_bit 31 (sint x)"
    by (rule sint_ucast_32 [OF assms])
  finally have "signed_take_bit 31 (sint x) = sint x"
    by simp
  then show "- (2 ^ 31) \<le> sint x \<and> sint x < 2 ^ 31"
    by (simp only: signed_take_bit_int_eq_self_iff)
next
  assume "- (2 ^ 31) \<le> sint x \<and> sint x < 2 ^ 31"
  then have "signed_take_bit 31 (sint x) = sint x"
    by (simp only: signed_take_bit_int_eq_self_iff)
  then have "sint (ucast x :: int32) = sint x"
    by (simp only: sint_ucast_32 [OF assms])
  then have "(of_int (sint (ucast x :: int32)) :: 'w word) = of_int (sint x)"
    by (simp only:)
  then show "fits_int x"
    by (simp add: fits_int_def)
qed

section \<open>Facts about the arrays and the constructor\<close>

lemma index_at_SomeD:
  assumes "index_at xs i = Some v"
  shows "0 \<le> sint i" and "nat (sint i) < length xs" and "v = xs ! nat (sint i)"
  using assms by (auto simp: index_at_def split: if_splits)

text \<open>Where both \<open>i\<close> and \<open>i + 1\<close> are not negative, \<open>i + 1\<close> has not wrapped.\<close>

lemma sint_succ_32:
  assumes "0 \<le> sint (i :: int32)" and "0 \<le> sint (i + 1)"
  shows "nat (sint (i + 1)) = nat (sint i) + 1"
proof -
  have lt: "sint i < 2 ^ 31" using sint_lt [of i] by simp
  have "sint (i + 1) = signed_take_bit 31 (sint i + 1)"
    by (simp add: sint_word_ariths)
  show ?thesis
  proof (cases "sint i + 1 < 2 ^ 31")
    case True
    then have "signed_take_bit 31 (sint i + 1) = sint i + 1"
      using assms(1) by (intro signed_take_bit_int_eq_self) auto
    then show ?thesis using \<open>sint (i + 1) = _\<close> assms(1) by simp
  next
    case False
    then have "sint i = 2 ^ 31 - 1" using lt by simp
    moreover have "i = word_of_int (sint i)" by simp
    ultimately have "i = word_of_int (2 ^ 31 - 1)" by (simp only:)
    then have "sint (i + 1) < 0" by simp
    then show ?thesis using assms(2) by simp
  qed
qed

lemmas init_defs = BlockInfo_init_def init_sum_s_q_def init_sum_s_k_def
  init_actual_seqlen_q_def init_seqlen_k_cache_def index_at_def


lemma BlockInfo_init_SomeD:
  assumes "BlockInfo_init Varlen params bidb uninit = Some bi"
  shows "init_sum_s_q Varlen params bidb = Some (sum_s_q bi)"
    and "init_sum_s_k Varlen params bidb = Some (sum_s_k bi)"
    and "init_actual_seqlen_q Varlen params bidb (sum_s_q bi) = Some (actual_seqlen_q bi)"
    and "init_seqlen_k_cache Varlen params bidb (sum_s_k bi) = Some (seqlen_k_cache bi)"
    and "actual_seqlen_k bi
           = seqlen_k_cache bi + (if knew_ptr params = None then 0 else seqlen_knew params)"
    and "pg_attn_block_tables_ptr bi = params_pg_attn_block_tables_ptr params"
    and "pg_attn_block_batch_stride bi = pg_attn_block_tables_batch_stride params"
    and "pg_attn_cache_block_stride bi = params_pg_attn_cache_block_stride params"
    and "actual_batch_size bi = uninit"
  using assms by (auto simp: BlockInfo_init_def bind_eq_Some_conv)

text \<open>On a valid batch index every read of the constructor is inside its array.\<close>

lemma valid_array_reads:
  assumes "0 \<le> sint bidb" and "0 \<le> sint (bidb + 1)" and "nat (sint (bidb + 1)) < length cu"
  shows "index_at cu bidb = Some (cu ! nat (sint bidb))"
    and "index_at cu (bidb + 1) = Some (cu ! (nat (sint bidb) + 1))"
  using assms sint_succ_32 [OF assms(1,2)] by (simp_all add: index_at_def)

lemma BlockInfo_init_valid:
  assumes "valid_batch_index params bidb"
  shows "BlockInfo_init Varlen params bidb uninit \<noteq> None"
proof -
  have q: "init_sum_s_q Varlen params bidb \<noteq> None"
    "init_actual_seqlen_q Varlen params bidb s \<noteq> None" for s
    using assms
    by (auto simp: valid_batch_index_def init_sum_s_q_def init_actual_seqlen_q_def
          valid_array_reads split: option.splits)
  have k: "init_sum_s_k Varlen params bidb \<noteq> None"
    "init_seqlen_k_cache Varlen params bidb s \<noteq> None" for s
    using assms
    by (auto simp: valid_batch_index_def init_sum_s_k_def init_seqlen_k_cache_def
          valid_array_reads split: option.splits)
  from q k show ?thesis
    by (auto simp: BlockInfo_init_def bind_eq_None_conv)
qed

section \<open>Facts about the initialisers\<close>

lemma init_seqlen_q_update:
  "init_sum_s_q Varlen (params\<lparr>seqlen_q := x\<rparr>) bidb = init_sum_s_q Varlen params bidb"
  "init_sum_s_k Varlen (params\<lparr>seqlen_q := x\<rparr>) bidb = init_sum_s_k Varlen params bidb"
  "init_seqlen_k_cache Varlen (params\<lparr>seqlen_q := x\<rparr>) bidb s
     = init_seqlen_k_cache Varlen params bidb s"
  "Varlen \<and> cu_seqlens_q params \<noteq> None \<Longrightarrow>
     init_actual_seqlen_q Varlen (params\<lparr>seqlen_q := x\<rparr>) bidb s
       = init_actual_seqlen_q Varlen params bidb s"
  by (auto simp: init_sum_s_q_def init_sum_s_k_def init_actual_seqlen_q_def
        init_seqlen_k_cache_def)

lemma init_seqlen_k_update:
  "init_sum_s_q Varlen (params\<lparr>seqlen_k := x\<rparr>) bidb = init_sum_s_q Varlen params bidb"
  "init_sum_s_k Varlen (params\<lparr>seqlen_k := x\<rparr>) bidb = init_sum_s_k Varlen params bidb"
  "init_actual_seqlen_q Varlen (params\<lparr>seqlen_k := x\<rparr>) bidb s
     = init_actual_seqlen_q Varlen params bidb s"
  "Varlen \<and> cu_seqlens_k params \<noteq> None \<Longrightarrow>
     init_seqlen_k_cache Varlen (params\<lparr>seqlen_k := x\<rparr>) bidb s
       = init_seqlen_k_cache Varlen params bidb s"
  by (auto simp: init_sum_s_q_def init_sum_s_k_def init_actual_seqlen_q_def
        init_seqlen_k_cache_def)

lemma init_more_update:
  "init_sum_s_q Varlen (params\<lparr>Params.more := m\<rparr>) bidb = init_sum_s_q Varlen params bidb"
  "init_sum_s_k Varlen (params\<lparr>Params.more := m\<rparr>) bidb = init_sum_s_k Varlen params bidb"
  "init_actual_seqlen_q Varlen (params\<lparr>Params.more := m\<rparr>) bidb s
     = init_actual_seqlen_q Varlen params bidb s"
  "init_seqlen_k_cache Varlen (params\<lparr>Params.more := m\<rparr>) bidb s
     = init_seqlen_k_cache Varlen params bidb s"
  by (simp_all add: init_sum_s_q_def init_sum_s_k_def init_actual_seqlen_q_def
        init_seqlen_k_cache_def cong: if_cong)

lemma init_fixed_length:
  "\<not> Varlen \<Longrightarrow> init_sum_s_q Varlen params bidb = Some (- 1)"
  "\<not> Varlen \<Longrightarrow> init_sum_s_k Varlen params bidb = Some (- 1)"
  "\<not> Varlen \<Longrightarrow> init_actual_seqlen_q Varlen params bidb s = Some (seqlen_q params)"
  "\<not> Varlen \<Longrightarrow> init_seqlen_k_cache Varlen params bidb s = Some (seqlen_k params)"
  by (simp_all add: init_sum_s_q_def init_sum_s_k_def init_actual_seqlen_q_def
        init_seqlen_k_cache_def)

section \<open>Facts about the conversions of products\<close>

lemma base_offset_product:
  "(if 0 \<le> sint (s :: int32) \<or> LENGTH('w) \<le> 32 then scast s * row_stride
    else ucast s * row_stride) = ucast s * (row_stride :: 'w::len word)"
  using nonneg_ucast_scast [of s, where ?'w = 'w] narrow_ucast_scast [of s, where ?'w = 'w]
  by auto

lemma word_of_int_take_bit_narrow:
  assumes "LENGTH('w::len) \<le> 32"
  shows "(word_of_int (take_bit 32 k) :: 'w word) = word_of_int k"
  using assms by (simp add: word_of_int_eq_iff min_def)

lemma ucast_mult_narrow:
  assumes "LENGTH('w::len) \<le> 32"
  shows "(ucast ((a :: int32) * b) :: 'w word) = ucast a * ucast b"
proof -
  have "uint (a * b) = take_bit 32 (uint a * uint b)"
    by (simp add: uint_word_ariths take_bit_eq_mod)
  then have "(ucast (a * b) :: 'w word) = word_of_int (take_bit 32 (uint a * uint b))"
    by (simp only: ucast_eq)
  also have "\<dots> = word_of_int (uint a * uint b)"
    by (rule word_of_int_take_bit_narrow [OF assms])
  also have "\<dots> = ucast a * ucast b"
    by simp
  finally show ?thesis .
qed

lemma scast_mult_narrow:
  assumes "LENGTH('w::len) \<le> 32"
  shows "(scast ((a :: int32) * b) :: 'w word) = scast a * scast b"
  using ucast_mult_narrow [OF assms, of a b] by (simp add: narrow_ucast_scast [OF assms])

lemma scast_mult_exact:
  assumes "LENGTH('w::len) \<le> 32 \<or> sint (a * b) = sint a * sint (b :: int32)"
  shows "(scast (a * b) :: 'w word) = scast a * scast b"
  using assms scast_mult_narrow [of a b, where ?'w = 'w] scast_mult_fits [of a b, where ?'w = 'w]
  by blast

text \<open>Differences of \<^verbatim>\<open>int\<close>s that do not overflow convert as differences.\<close>

lemma scast_diff_fits:
  assumes "sint (a - b) = sint a - sint (b :: int32)"
  shows "(scast (a - b) :: 'w::len word) = scast a - scast b"
proof -
  have "(scast (a - b) :: 'w word) = of_int (sint (a - b))"
    by (rule of_int_sint [symmetric])
  also have "\<dots> = of_int (sint a) - of_int (sint b)"
    by (simp only: assms of_int_diff)
  also have "\<dots> = scast a - scast b"
    by (simp only: of_int_sint)
  finally show ?thesis .
qed

lemma scast_pred_product:
  assumes "sint (c * k) = sint c * sint (k :: int32)"
    and "sint ((c - 1) * k) = (sint c - 1) * sint k"
  shows "(scast ((c - 1) * k) :: 'w::len word) = scast (c * k) - scast k"
proof -
  have "(scast ((c - 1) * k) :: 'w word) = of_int (sint ((c - 1) * k))"
    by (rule of_int_sint [symmetric])
  also have "\<dots> = of_int (sint (c * k) - sint k)"
    by (simp only: assms) (simp add: algebra_simps)
  also have "\<dots> = of_int (sint (c * k)) - of_int (sint k)"
    by (rule of_int_diff)
  also have "\<dots> = scast (c * k) - scast k"
    by (simp only: of_int_sint)
  finally show ?thesis .
qed

section \<open>One step of the walk\<close>

lemma ucast_plus_scast_32:
  assumes "32 \<le> LENGTH('w::len)"
  shows "(ucast ((x :: 'w word) + scast (d :: int32)) :: int32) = ucast x + d"
  by (simp add: ucast_add_32 [OF assms] ucast_scast_32 [OF assms])

lemma ucast_inj_32:
  assumes "LENGTH('w::len) = 32" and "(ucast (t :: 'w word) :: int32) = ucast r"
  shows "t = r"
proof (rule bit_word_eqI)
  fix n assume "n < LENGTH('w)"
  then have n: "n < 32" using assms(1) by simp
  have "bit (ucast t :: int32) n = bit (ucast r :: int32) n"
    by (simp only: assms(2))
  then show "bit t n = bit r n"
    using n by (simp add: bit_simps)
qed

lemma advance_step:
  fixes row_stride :: "'w::len word"
  assumes w: "32 \<le> LENGTH('w)"
    and x: "k_offset_pg bi batch_stride row_stride bidb block_id k_block_n = Some x"
    and d: "k_advance_offset_pg bi bidb block_id row_stride k_block_n = Some d"
  shows "\<exists>y. k_offset_pg bi batch_stride row_stride bidb (block_id - 1) k_block_n = Some y
             \<and> (ucast y :: int32) = ucast x + d"
proof (cases "pg_attn_block_tables_ptr bi")
  case None
  let ?base = "k_offset bi batch_stride row_stride bidb"
  from None x have x': "x = ?base + scast (block_id * k_block_n) * row_stride"
    by (simp add: k_offset_pg_def)
  from None d have d': "d = - ucast (scast k_block_n * row_stride)"
    by (simp add: k_advance_offset_pg_def)
  have y: "k_offset_pg bi batch_stride row_stride bidb (block_id - 1) k_block_n
             = Some (?base + scast ((block_id - 1) * k_block_n) * row_stride)"
    using None by (simp add: k_offset_pg_def)
  have "(ucast (?base + scast ((block_id - 1) * k_block_n) * row_stride) :: int32)
          = ucast ?base + (block_id - 1) * k_block_n * ucast row_stride"
    by (simp add: ucast_add_32 [OF w] ucast_mult_32 [OF w] ucast_scast_32 [OF w])
  also have "\<dots> = ucast ?base + block_id * k_block_n * ucast row_stride
                    - k_block_n * ucast row_stride"
    by (simp add: algebra_simps)
  also have "\<dots> = ucast x + d"
    by (simp add: x' d' ucast_add_32 [OF w] ucast_mult_32 [OF w] ucast_scast_32 [OF w])
  finally show ?thesis
    using y by blast
next
  case (Some table)
  let ?i = "bidb * pg_attn_block_batch_stride bi + block_id"
  let ?c = "pg_attn_cache_block_stride bi"
  from Some d obtain prev cur where prev: "index_at table (?i - 1) = Some prev"
    and cur: "index_at table ?i = Some cur" and d': "d = prev * ?c - cur * ?c"
    by (auto simp: k_advance_offset_pg_def bind_eq_Some_conv)
  from Some x cur have x': "x = scast (cur * ?c)"
    by (simp add: k_offset_pg_def)
  have y: "k_offset_pg bi batch_stride row_stride bidb (block_id - 1) k_block_n
             = Some (scast (prev * ?c))"
    using Some prev by (simp add: k_offset_pg_def add_diff_eq)
  show ?thesis
    using y by (simp add: x' d' ucast_scast_32 [OF w])
qed

lemma advance_walk_offsets:
  fixes row_stride :: "'w::len word"
  assumes w: "32 \<le> LENGTH('w)"
  shows "advance_walk bi bidb row_stride k_block_n block_id n offset = Some r \<Longrightarrow>
         k_offset_pg bi batch_stride row_stride bidb block_id k_block_n = Some x \<Longrightarrow>
         \<exists>t. k_offset_pg bi batch_stride row_stride bidb (block_id - of_nat n) k_block_n = Some t
             \<and> (ucast r :: int32) - ucast offset = ucast t - ucast x"
proof (induction n arbitrary: block_id offset x)
  case 0
  then show ?case by simp
next
  case (Suc n)
  from Suc.prems(1) obtain d
    where d: "k_advance_offset_pg bi bidb block_id row_stride k_block_n = Some d"
      and rest: "advance_walk bi bidb row_stride k_block_n (block_id - 1) n (offset + scast d)
                   = Some r"
    by (auto simp: bind_eq_Some_conv)
  from advance_step [OF w Suc.prems(2) d] obtain y
    where y: "k_offset_pg bi batch_stride row_stride bidb (block_id - 1) k_block_n = Some y"
      and uy: "(ucast y :: int32) = ucast x + d"
    by blast
  from Suc.IH [OF rest y] obtain t
    where t: "k_offset_pg bi batch_stride row_stride bidb (block_id - 1 - of_nat n) k_block_n
                = Some t"
      and ut: "(ucast r :: int32) - ucast (offset + scast d) = ucast t - ucast y"
    by blast
  have "block_id - 1 - of_nat n = block_id - of_nat (Suc n)"
    by simp
  with t have "k_offset_pg bi batch_stride row_stride bidb (block_id - of_nat (Suc n)) k_block_n
                 = Some t"
    by (simp only:)
  moreover have "(ucast r :: int32) - ucast offset = ucast t - ucast x"
    using ut uy by (simp add: ucast_plus_scast_32 [OF w] algebra_simps)
  ultimately show ?case
    by blast
qed

text \<open>An exact step arrives at the offset of the page before.\<close>

lemma advance_step_exact:
  fixes row_stride :: "'w::len word"
  assumes w: "32 \<le> LENGTH('w)"
    and x: "k_offset_pg bi batch_stride row_stride bidb block_id k_block_n = Some x"
    and d: "k_advance_offset_pg bi bidb block_id row_stride k_block_n = Some d"
    and e: "step_exact bi bidb row_stride k_block_n block_id"
  shows "k_offset_pg bi batch_stride row_stride bidb (block_id - 1) k_block_n
           = Some (x + scast d)"
proof (cases "pg_attn_block_tables_ptr bi")
  case None
  let ?base = "k_offset bi batch_stride row_stride bidb"
  let ?p = "scast k_block_n * row_stride"
  from None e have fits: "fits_int (- ?p)"
    and c: "sint (block_id * k_block_n) = sint block_id * sint k_block_n"
    and c': "sint ((block_id - 1) * k_block_n) = (sint block_id - 1) * sint k_block_n"
    by (simp_all add: step_exact_def)
  from None x have x': "x = ?base + scast (block_id * k_block_n) * row_stride"
    by (simp add: k_offset_pg_def)
  from None d have "d = ucast (- ?p)"
    by (simp add: k_advance_offset_pg_def ucast_minus_32 [OF w])
  with fits have d': "(scast d :: 'w word) = - ?p"
    by (simp add: fits_int_def)
  have "k_offset_pg bi batch_stride row_stride bidb (block_id - 1) k_block_n
          = Some (?base + scast ((block_id - 1) * k_block_n) * row_stride)"
    using None by (simp add: k_offset_pg_def)
  also have "?base + scast ((block_id - 1) * k_block_n) * row_stride = x + scast d"
    unfolding scast_pred_product [OF c c'] x' d' by (simp add: algebra_simps)
  finally show ?thesis .
next
  case (Some table)
  let ?i = "bidb * pg_attn_block_batch_stride bi + block_id"
  let ?c = "pg_attn_cache_block_stride bi"
  from Some d obtain prev cur where prev: "index_at table (?i - 1) = Some prev"
    and cur: "index_at table ?i = Some cur" and d': "d = prev * ?c - cur * ?c"
    by (auto simp: k_advance_offset_pg_def bind_eq_Some_conv)
  from Some e prev cur have "sint (prev * ?c - cur * ?c) = sint (prev * ?c) - sint (cur * ?c)"
    by (simp add: step_exact_def)
  then have sd: "(scast d :: 'w word) = scast (prev * ?c) - scast (cur * ?c)"
    unfolding d' by (rule scast_diff_fits)
  from Some x cur have x': "x = scast (cur * ?c)"
    by (simp add: k_offset_pg_def)
  have "k_offset_pg bi batch_stride row_stride bidb (block_id - 1) k_block_n
             = Some (scast (prev * ?c))"
    using Some prev by (simp add: k_offset_pg_def add_diff_eq)
  also have "scast (prev * ?c) = x + scast d"
    by (simp add: x' sd)
  finally show ?thesis .
qed

lemma advance_walk_exact:
  fixes row_stride :: "'w::len word"
  assumes w: "32 \<le> LENGTH('w)"
  shows "advance_walk bi bidb row_stride k_block_n block_id n x = Some r \<Longrightarrow>
         k_offset_pg bi batch_stride row_stride bidb block_id k_block_n = Some x \<Longrightarrow>
         walk_exact bi bidb row_stride k_block_n block_id n \<Longrightarrow>
         k_offset_pg bi batch_stride row_stride bidb (block_id - of_nat n) k_block_n = Some r"
proof (induction n arbitrary: block_id x)
  case 0
  then show ?case by simp
next
  case (Suc n)
  from Suc.prems(1) obtain d
    where d: "k_advance_offset_pg bi bidb block_id row_stride k_block_n = Some d"
      and rest: "advance_walk bi bidb row_stride k_block_n (block_id - 1) n (x + scast d)
                   = Some r"
    by (auto simp: bind_eq_Some_conv)
  from Suc.prems(3) have e: "step_exact bi bidb row_stride k_block_n block_id"
    and es: "walk_exact bi bidb row_stride k_block_n (block_id - 1) n"
    by simp_all
  note y = advance_step_exact [OF w Suc.prems(2) d e]
  have "k_offset_pg bi batch_stride row_stride bidb (block_id - 1 - of_nat n) k_block_n
          = Some r"
    by (rule Suc.IH [OF rest y es])
  moreover have "block_id - 1 - of_nat n = block_id - of_nat (Suc n)"
    by simp
  ultimately show ?case
    by (simp only:)
qed

section \<open>The resolved lengths\<close>

text \<open>
  Claim C4, as the code has it. Where the constructor is defined (the batch index
  is valid: every array read is inside its array), \<open>actual_seqlen_q\<close>, the actual
  query length, is \<open>seqlen_q\<close>, the padded length, when \<open>cu_seqlens_q\<close> is
  \<^verbatim>\<open>nullptr\<close>. When the array is present, it is
  \<open>cu_seqlens_q[b + 1] - cu_seqlens_q[b]\<close> in the variable-length instantiation
  (\<open>Varlen = True\<close>, the default of the template), and it is still the padded
  \<open>seqlen_q\<close> in the instantiation with \<open>Varlen = False\<close>: the guard
  \<^verbatim>\<open>!Varlen ||\<close> comes first.
\<close>

theorem actual_seqlen_q_resolved:
  assumes "BlockInfo_init Varlen params bidb uninit = Some bi"
  shows "actual_seqlen_q bi =
           (case cu_seqlens_q params of
              None \<Rightarrow> seqlen_q params
            | Some cu \<Rightarrow>
                if \<not> Varlen then seqlen_q params
                else cu ! (nat (sint bidb) + 1) - cu ! nat (sint bidb))"
proof -
  note q = BlockInfo_init_SomeD(1,3) [OF assms]
  show ?thesis
  proof (cases "cu_seqlens_q params")
    case None
    with q show ?thesis
      by (simp add: init_actual_seqlen_q_def)
  next
    case (Some cu)
    show ?thesis
    proof (cases Varlen)
      case True
      with q Some have lo: "index_at cu bidb = Some (sum_s_q bi)"
        by (simp add: init_sum_s_q_def)
      from True q Some obtain hi where hi: "index_at cu (bidb + 1) = Some hi"
        and c: "actual_seqlen_q bi = hi - sum_s_q bi"
        by (auto simp: init_actual_seqlen_q_def bind_eq_Some_conv)
      have "nat (sint (bidb + 1)) = nat (sint bidb) + 1"
        using index_at_SomeD(1) [OF lo] index_at_SomeD(1) [OF hi] by (rule sint_succ_32)
      then show ?thesis
        using True Some c index_at_SomeD(3) [OF lo] index_at_SomeD(3) [OF hi] by simp
    next
      case False
      with q Some show ?thesis
        by (simp add: init_actual_seqlen_q_def)
    qed
  qed
qed

text \<open>
  The scenario of the spec: with the offsets \<open>[0, 5, 12]\<close> and \<open>Varlen = True\<close>
  the query lengths are 5 at the batch index 0 and 7 at the batch index 1.
\<close>

theorem actual_seqlen_q_resolved_witness:
  "cu_seqlens_q scenario_params = Some [0, 5, 12]
   \<and> BlockInfo_init True scenario_params 0 None
       = Some (scenario_info \<lparr> sum_s_q := 0, actual_seqlen_q := 5,
                               seqlen_k_cache := 0, actual_seqlen_k := 3 \<rparr>)
   \<and> actual_seqlen_q (scenario_info \<lparr> sum_s_q := 0, actual_seqlen_q := 5,
                               seqlen_k_cache := 0, actual_seqlen_k := 3 \<rparr>) = 5
   \<and> BlockInfo_init True scenario_params 1 None = Some scenario_info
   \<and> actual_seqlen_q scenario_info = 7"
proof -
  have built0: "BlockInfo_init True scenario_params 0 None
                  = Some (scenario_info \<lparr> sum_s_q := 0, actual_seqlen_q := 5,
                               seqlen_k_cache := 0, actual_seqlen_k := 3 \<rparr>)"
    by (simp add: scenario_params_def scenario_info_def init_defs)
  have built1: "BlockInfo_init True scenario_params 1 None = Some scenario_info"
    by (simp add: scenario_params_def scenario_info_def init_defs)
  have "cu_seqlens_q scenario_params = Some [0, 5, 12]"
    by (simp add: scenario_params_def)
  then show ?thesis
    using built0 built1 actual_seqlen_q_resolved [OF built0] actual_seqlen_q_resolved [OF built1]
    by simp
qed

text \<open>
  The claim as the spec states it, for every configuration, fails for
  \<open>Varlen = False\<close>: the array \<open>[0, 5, 12]\<close> is present, and the query length at
  the batch index 0 is the padded length 100, not \<open>5 - 0\<close>.
\<close>

theorem actual_seqlen_q_fixed_length_counterexample:
  "cu_seqlens_q scenario_params = Some [0, 5, 12]
   \<and> [0, 5, 12] ! 1 - [0, 5, 12] ! 0 = (5 :: int32)
   \<and> BlockInfo_init False scenario_params 0 None = Some scenario_info_fixed
   \<and> actual_seqlen_q scenario_info_fixed = seqlen_q scenario_params
   \<and> actual_seqlen_q scenario_info_fixed = 100
   \<and> actual_seqlen_q scenario_info_fixed \<noteq> [0, 5, 12] ! 1 - [0, 5, 12] ! 0"
  by (simp add: scenario_params_def scenario_info_fixed_def init_defs)

text \<open>
  Claim C1, as the code has it. Where the constructor is defined,
  \<open>seqlen_k_cache\<close>, the cached key length, is \<open>seqlen_k\<close>, the padded length,
  when \<open>cu_seqlens_k\<close> is \<^verbatim>\<open>nullptr\<close>. When the array is present and
  \<open>Varlen = True\<close>, it is \<open>cu_seqlens_k[b + 1] - sum_s_k\<close> with
  \<open>sum_s_k = cu_seqlens_k[b]\<close> if \<open>is_seqlens_k_cumulative\<close> holds, and the raw
  value \<open>cu_seqlens_k[b]\<close>, a length and no difference, if not (then \<open>sum_s_k\<close>
  is \<open>-1\<close>). With \<open>Varlen = False\<close> it is the padded \<open>seqlen_k\<close> also when the
  array is present, and \<open>sum_s_k\<close> is \<open>-1\<close>.
\<close>

theorem seqlen_k_cache_resolved:
  assumes "BlockInfo_init Varlen params bidb uninit = Some bi"
  shows "seqlen_k_cache bi =
           (case cu_seqlens_k params of
              None \<Rightarrow> seqlen_k params
            | Some cu \<Rightarrow>
                if \<not> Varlen then seqlen_k params
                else if is_seqlens_k_cumulative params
                then cu ! (nat (sint bidb) + 1) - sum_s_k bi
                else cu ! nat (sint bidb))
         \<and> sum_s_k bi =
           (case cu_seqlens_k params of
              None \<Rightarrow> - 1
            | Some cu \<Rightarrow>
                if \<not> Varlen \<or> \<not> is_seqlens_k_cumulative params then - 1
                else cu ! nat (sint bidb))"
proof -
  note k = BlockInfo_init_SomeD(2,4) [OF assms]
  show ?thesis
  proof (cases "cu_seqlens_k params")
    case None
    with k show ?thesis
      by (simp add: init_sum_s_k_def init_seqlen_k_cache_def)
  next
    case (Some cu)
    show ?thesis
    proof (cases "Varlen \<and> is_seqlens_k_cumulative params")
      case True
      with k Some have lo: "index_at cu bidb = Some (sum_s_k bi)"
        by (simp add: init_sum_s_k_def)
      from True k Some obtain hi where hi: "index_at cu (bidb + 1) = Some hi"
        and c: "seqlen_k_cache bi = hi - sum_s_k bi"
        by (auto simp: init_seqlen_k_cache_def bind_eq_Some_conv)
      have "nat (sint (bidb + 1)) = nat (sint bidb) + 1"
        using index_at_SomeD(1) [OF lo] index_at_SomeD(1) [OF hi] by (rule sint_succ_32)
      then show ?thesis
        using True Some c index_at_SomeD(3) [OF lo] index_at_SomeD(3) [OF hi] by simp
    next
      case False
      with k Some show ?thesis
        by (auto simp: init_sum_s_k_def init_seqlen_k_cache_def dest: index_at_SomeD(3))
    qed
  qed
qed

text \<open>
  The scenario of the spec: with the array \<open>[0, 8, 8]\<close> holding lengths and
  \<open>Varlen = True\<close>, the cached key length at the batch index 1 is 8.
\<close>

theorem seqlen_k_cache_resolved_witness:
  "BlockInfo_init True scenario_params 1 None = Some scenario_info
   \<and> cu_seqlens_k scenario_params = Some [0, 8, 8]
   \<and> is_seqlens_k_cumulative scenario_params = False
   \<and> seqlen_k_cache scenario_info = 8"
proof -
  have built: "BlockInfo_init True scenario_params 1 None = Some scenario_info"
    by (simp add: scenario_params_def scenario_info_def init_defs)
  have "cu_seqlens_k scenario_params = Some [0, 8, 8]"
    and "is_seqlens_k_cumulative scenario_params = False"
    by (simp_all add: scenario_params_def)
  then show ?thesis
    using built seqlen_k_cache_resolved [OF built] by simp
qed

text \<open>
  The claim as the spec states it, for every configuration, fails for
  \<open>Varlen = False\<close>: the array \<open>[0, 8, 8]\<close> of lengths is present, and the cached
  key length at the batch index 1 is the padded length 200, not the raw value 8.
\<close>

theorem seqlen_k_cache_fixed_length_counterexample:
  "cu_seqlens_k scenario_params = Some [0, 8, 8]
   \<and> is_seqlens_k_cumulative scenario_params = False
   \<and> [0, 8, 8] ! 1 = (8 :: int32)
   \<and> BlockInfo_init False scenario_params 1 None = Some scenario_info_fixed
   \<and> seqlen_k_cache scenario_info_fixed = seqlen_k scenario_params
   \<and> seqlen_k_cache scenario_info_fixed = 200
   \<and> seqlen_k_cache scenario_info_fixed \<noteq> [0, 8, 8] ! 1"
  by (simp add: scenario_params_def scenario_info_fixed_def init_defs)

section \<open>The total key length\<close>

text \<open>
  Claim C6. For every configuration and every valid batch index the constructor
  is defined, for both values of \<open>Varlen\<close>. Whatever it builds, for an absent
  key array, a cumulative one and one of lengths, the constructed
  \<open>actual_seqlen_k\<close>, the total key length, is \<open>seqlen_k_cache\<close>, the cached key
  length, plus the length of the new keys, which counts as 0 when \<open>knew_ptr\<close> is
  \<^verbatim>\<open>nullptr\<close>; and \<open>seqlen_k_cache\<close> is the length that its initialiser resolved
  from the configuration.
\<close>

theorem actual_seqlen_k_is_cache_plus_new:
  "(valid_batch_index params bidb \<longrightarrow> BlockInfo_init Varlen params bidb uninit \<noteq> None)
   \<and> (BlockInfo_init Varlen params bidb uninit = Some bi \<longrightarrow>
        actual_seqlen_k bi
          = seqlen_k_cache bi + (if knew_ptr params = None then 0 else seqlen_knew params)
        \<and> init_seqlen_k_cache Varlen params bidb (sum_s_k bi) = Some (seqlen_k_cache bi))"
  using BlockInfo_init_valid [of params bidb Varlen uninit]
    BlockInfo_init_SomeD(4,5) [of Varlen params bidb uninit bi]
  by blast

text \<open>
  Three combinations: an array of lengths with three new keys, a cumulative
  array without new keys, and padded keys without new keys.
\<close>

theorem actual_seqlen_k_is_cache_plus_new_witness:
  "valid_batch_index scenario_params 1
   \<and> BlockInfo_init True scenario_params 1 None = Some scenario_info
   \<and> knew_ptr scenario_params \<noteq> None \<and> seqlen_knew scenario_params = 3
   \<and> seqlen_k_cache scenario_info = 8
   \<and> actual_seqlen_k scenario_info = 8 + 3
   \<and> valid_batch_index negative_offset_params 0
   \<and> BlockInfo_init True negative_offset_params 0 None = Some negative_offset_info
   \<and> knew_ptr negative_offset_params = None
   \<and> seqlen_k_cache negative_offset_info = 5
   \<and> actual_seqlen_k negative_offset_info = 5 + 0
   \<and> valid_batch_index padded_params 7
   \<and> BlockInfo_init False padded_params 7 None = Some padded_info
   \<and> knew_ptr padded_params = None
   \<and> seqlen_k_cache padded_info = 8
   \<and> actual_seqlen_k padded_info = 8 + 0"
proof -
  have valid: "valid_batch_index scenario_params 1" "valid_batch_index negative_offset_params 0"
    "valid_batch_index padded_params 7"
    by (simp_all add: valid_batch_index_def scenario_params_def negative_offset_params_def
          padded_params_def)
  have built: "BlockInfo_init True scenario_params 1 None = Some scenario_info"
    "BlockInfo_init True negative_offset_params 0 None = Some negative_offset_info"
    "BlockInfo_init False padded_params 7 None = Some padded_info"
    by (simp_all add: scenario_params_def scenario_info_def negative_offset_params_def
          negative_offset_info_def padded_params_def padded_info_def init_defs)
  have new: "knew_ptr scenario_params \<noteq> None" "seqlen_knew scenario_params = 3"
    "knew_ptr negative_offset_params = None" "knew_ptr padded_params = None"
    by (simp_all add: scenario_params_def negative_offset_params_def padded_params_def)
  have cache: "seqlen_k_cache scenario_info = 8" "seqlen_k_cache negative_offset_info = 5"
    "seqlen_k_cache padded_info = 8"
    by (simp_all add: scenario_info_def negative_offset_info_def padded_info_def)
  show ?thesis
    using valid built new cache
      actual_seqlen_k_is_cache_plus_new [of scenario_params 1 True None scenario_info]
      actual_seqlen_k_is_cache_plus_new [of negative_offset_params 0 True None
        negative_offset_info]
      actual_seqlen_k_is_cache_plus_new [of padded_params 7 False None padded_info]
    by simp
qed

section \<open>Padded or packed\<close>

text \<open>
  Claim C9, as the code has it. In the variable-length instantiation
  (\<open>Varlen = True\<close>) the presence of the cumulative-offset array alone decides,
  for the queries and for the keys, between the padded and the packed reading:
  \<^item> when \<open>cu_seqlens_q\<close> is present, \<open>seqlen_q\<close> has no influence on what the
    constructor builds, and the same for \<open>cu_seqlens_k\<close> and \<open>seqlen_k\<close>;
  \<^item> when an array is \<^verbatim>\<open>nullptr\<close>, its initialisers return the sentinel \<open>-1\<close> and
    the padded length for every batch index whatsoever, so they read nothing
    (a read through \<^verbatim>\<open>nullptr\<close> or outside an array is \<open>None\<close> in the model).
  In the instantiation with \<open>Varlen = False\<close> the padded reading applies to both
  kinds whatever arrays are present: the arrays have no influence, and no
  initialiser reads.
\<close>

theorem interpretation_by_presence:
  "(Varlen \<and> cu_seqlens_q params \<noteq> None \<longrightarrow>
      BlockInfo_init Varlen (params\<lparr>seqlen_q := x\<rparr>) bidb uninit
        = BlockInfo_init Varlen params bidb uninit)
   \<and> (Varlen \<and> cu_seqlens_k params \<noteq> None \<longrightarrow>
      BlockInfo_init Varlen (params\<lparr>seqlen_k := x\<rparr>) bidb uninit
        = BlockInfo_init Varlen params bidb uninit)
   \<and> (cu_seqlens_q params = None \<longrightarrow>
      init_sum_s_q Varlen params bidb = Some (- 1)
      \<and> init_actual_seqlen_q Varlen params bidb s = Some (seqlen_q params))
   \<and> (cu_seqlens_k params = None \<longrightarrow>
      init_sum_s_k Varlen params bidb = Some (- 1)
      \<and> init_seqlen_k_cache Varlen params bidb s = Some (seqlen_k params))
   \<and> (\<not> Varlen \<longrightarrow>
      BlockInfo_init Varlen (params\<lparr>cu_seqlens_q := q, cu_seqlens_k := k\<rparr>) bidb uninit
        = BlockInfo_init Varlen params bidb uninit
      \<and> init_sum_s_q Varlen params bidb = Some (- 1)
      \<and> init_actual_seqlen_q Varlen params bidb s = Some (seqlen_q params)
      \<and> init_sum_s_k Varlen params bidb = Some (- 1)
      \<and> init_seqlen_k_cache Varlen params bidb s = Some (seqlen_k params))"
proof (intro conjI impI)
  assume "Varlen \<and> cu_seqlens_q params \<noteq> None"
  then show "BlockInfo_init Varlen (params\<lparr>seqlen_q := x\<rparr>) bidb uninit
               = BlockInfo_init Varlen params bidb uninit"
    by (simp add: BlockInfo_init_def init_seqlen_q_update)
next
  assume "Varlen \<and> cu_seqlens_k params \<noteq> None"
  then show "BlockInfo_init Varlen (params\<lparr>seqlen_k := x\<rparr>) bidb uninit
               = BlockInfo_init Varlen params bidb uninit"
    by (simp add: BlockInfo_init_def init_seqlen_k_update)
next
  assume "\<not> Varlen"
  then show "BlockInfo_init Varlen (params\<lparr>cu_seqlens_q := q, cu_seqlens_k := k\<rparr>) bidb uninit
               = BlockInfo_init Varlen params bidb uninit"
    by (simp add: BlockInfo_init_def init_fixed_length)
qed (simp_all add: init_sum_s_q_def init_sum_s_k_def init_actual_seqlen_q_def
       init_seqlen_k_cache_def)

theorem interpretation_by_presence_witness:
  "cu_seqlens_q scenario_params \<noteq> None \<and> cu_seqlens_k scenario_params \<noteq> None
   \<and> BlockInfo_init True (scenario_params\<lparr>seqlen_q := 7\<rparr>) 1 None = Some scenario_info
   \<and> BlockInfo_init True (scenario_params\<lparr>seqlen_k := 7\<rparr>) 1 None = Some scenario_info
   \<and> cu_seqlens_q identity_table_params = None \<and> cu_seqlens_k identity_table_params = None
   \<and> init_sum_s_q True identity_table_params 5 = Some (- 1)
   \<and> init_actual_seqlen_q True identity_table_params 5 (- 1) = Some 8
   \<and> init_sum_s_k True identity_table_params 5 = Some (- 1)
   \<and> init_seqlen_k_cache True identity_table_params 5 (- 1) = Some 8"
proof -
  have built: "BlockInfo_init True scenario_params 1 None = Some scenario_info"
    by (simp add: scenario_params_def scenario_info_def init_defs)
  have present: "cu_seqlens_q scenario_params \<noteq> None" "cu_seqlens_k scenario_params \<noteq> None"
    by (simp_all add: scenario_params_def)
  have absent: "cu_seqlens_q identity_table_params = None"
    "cu_seqlens_k identity_table_params = None" "seqlen_q identity_table_params = 8"
    "seqlen_k identity_table_params = 8"
    by (simp_all add: identity_table_params_def)
  show ?thesis
    using built present absent
      interpretation_by_presence [of True scenario_params 7 1 None "- 1" None None]
      interpretation_by_presence [of True identity_table_params 7 5 None "- 1" None None]
    by simp
qed

text \<open>
  The claim as the spec states it, for every configuration, fails for
  \<open>Varlen = False\<close>: the query array is present, and yet the padded field
  \<open>seqlen_q\<close> decides the query length.
\<close>

theorem interpretation_fixed_length_counterexample:
  "cu_seqlens_q scenario_params \<noteq> None
   \<and> map_option actual_seqlen_q (BlockInfo_init False scenario_params 1 None) = Some 100
   \<and> map_option actual_seqlen_q (BlockInfo_init False (scenario_params\<lparr>seqlen_q := 7\<rparr>) 1 None)
        = Some 7"
  by (simp add: scenario_params_def init_defs)

section \<open>The row offsets\<close>

text \<open>
  Claim C5, as the code has it. \<open>q_offset\<close> returns \<open>bidb * batch_stride\<close> when
  \<open>sum_s_q\<close> is \<open>-1\<close>. Otherwise it returns \<open>uint32_t(sum_s_q) * row_stride\<close>:
  this is \<open>sum_s_q * row_stride\<close> when \<open>sum_s_q\<close> is not negative, and for every
  \<open>sum_s_q\<close> when \<^verbatim>\<open>index_t\<close> is no wider than 32 bits; for a negative \<open>sum_s_q\<close>
  and a wider \<^verbatim>\<open>index_t\<close> the factor is \<open>sum_s_q + 2^32\<close>. \<open>k_offset\<close> follows the
  same rule with \<open>sum_s_k\<close>. Both are total functions: they read no array and
  have no error path.
\<close>

theorem row_offsets:
  "q_offset bi batch_stride row_stride bidb =
     (if sum_s_q bi = - 1 then scast bidb * batch_stride
      else if 0 \<le> sint (sum_s_q bi) \<or> LENGTH('w) \<le> 32 then scast (sum_s_q bi) * row_stride
      else ucast (sum_s_q bi) * row_stride)
   \<and> k_offset bi batch_stride row_stride bidb =
     (if sum_s_k bi = - 1 then scast bidb * batch_stride
      else if 0 \<le> sint (sum_s_k bi) \<or> LENGTH('w) \<le> 32 then scast (sum_s_k bi) * row_stride
      else ucast (sum_s_k bi) * (row_stride :: 'w::len word))"
  unfolding q_offset_def k_offset_def base_offset_product by simp

theorem row_offsets_witness:
  "sum_s_q scenario_info = 5 \<and> sum_s_k scenario_info = - 1
   \<and> q_offset scenario_info (1000 :: 64 word) 16 1 = 5 * 16
   \<and> k_offset scenario_info (1000 :: 64 word) 16 1 = 1 * 1000"
proof -
  have "sum_s_q scenario_info = 5" "sum_s_k scenario_info = - 1"
    by (simp_all add: scenario_info_def)
  then show ?thesis
    using row_offsets [of scenario_info "1000 :: 64 word" 16 1] by simp
qed

text \<open>
  The claim as the spec states it, \<open>sum_s_q * row_stride\<close> for every
  configuration, fails for a 64-bit \<^verbatim>\<open>index_t\<close> and the packed query array
  \<open>[-2, 3]\<close>: at the batch index 0 the base offset is \<open>-2\<close>, and with the row
  stride 1 the code returns \<open>4294967294\<close>, not \<open>-2\<close>.
\<close>

theorem row_offset_unsigned_counterexample:
  "BlockInfo_init True negative_offset_params 0 None = Some negative_offset_info
   \<and> sum_s_q negative_offset_info = - 2
   \<and> q_offset negative_offset_info (0 :: 64 word) 1 0 = 4294967294
   \<and> (scast (sum_s_q negative_offset_info) * 1 :: 64 word) = - 2
   \<and> q_offset negative_offset_info (0 :: 64 word) 1 0
        \<noteq> scast (sum_s_q negative_offset_info) * 1"
  by (simp add: negative_offset_params_def negative_offset_info_def init_defs q_offset_def)

section \<open>The offset of a page\<close>

text \<open>
  Claim C2. Without a page table, \<open>k_offset_pg\<close> returns
  \<open>k_offset(batch_stride, row_stride, bidb) + block_id * k_block_n * row_stride\<close>
  (the product of the two \<^verbatim>\<open>int\<close>s first), and the strides of the page table have
  no influence. With a page table and a valid index, it returns
  \<open>table[bidb * pg_attn_block_batch_stride + block_id] * pg_attn_cache_block_stride\<close>,
  a product of two \<^verbatim>\<open>int\<close>s converted to \<^verbatim>\<open>index_t\<close>; the result is then the same
  for every \<open>batch_stride\<close>, \<open>row_stride\<close>, \<open>k_block_n\<close> and key base offset
  \<open>sum_s_k\<close>. So each call uses exactly one of the two schemes.
\<close>

theorem k_offset_pg_schemes:
  "(pg_attn_block_tables_ptr bi = None \<longrightarrow>
      k_offset_pg bi batch_stride row_stride bidb block_id k_block_n
        = Some (k_offset bi batch_stride row_stride bidb
                + scast (block_id * k_block_n) * row_stride)
      \<and> k_offset_pg (bi\<lparr>pg_attn_block_batch_stride := st, pg_attn_cache_block_stride := cs\<rparr>)
           batch_stride row_stride bidb block_id k_block_n
         = k_offset_pg bi batch_stride row_stride bidb block_id k_block_n)
   \<and> (pg_attn_block_tables_ptr bi = Some table
       \<and> index_at table (bidb * pg_attn_block_batch_stride bi + block_id) = Some e \<longrightarrow>
      k_offset_pg bi batch_stride row_stride bidb block_id k_block_n
        = Some (scast (e * pg_attn_cache_block_stride bi)))
   \<and> (pg_attn_block_tables_ptr bi \<noteq> None \<longrightarrow>
      k_offset_pg (bi\<lparr>sum_s_k := s\<rparr>) batch_stride' row_stride' bidb block_id k_block_n'
        = k_offset_pg bi batch_stride (row_stride :: 'w::len word) bidb block_id k_block_n)"
  by (auto simp: k_offset_pg_def k_offset_def)

theorem k_offset_pg_schemes_witness:
  "pg_attn_block_tables_ptr scenario_info = Some [2, 0, 1, 1, 2, 0]
   \<and> index_at [2, 0, 1, 1, 2, 0] (1 * pg_attn_block_batch_stride scenario_info + 0) = Some 1
   \<and> k_offset_pg scenario_info (1000 :: 64 word) 16 1 0 4 = Some 64
   \<and> k_offset_pg (scenario_info\<lparr>sum_s_k := 9\<rparr>) (7 :: 64 word) 3 1 0 2 = Some 64
   \<and> k_offset_pg (scenario_info\<lparr>pg_attn_block_tables_ptr := None\<rparr>) (1000 :: 64 word) 16 1 2 4
        = Some (1000 + 2 * 4 * 16)"
proof -
  have t: "pg_attn_block_tables_ptr scenario_info = Some [2, 0, 1, 1, 2, 0]"
    and i: "index_at [2, 0, 1, 1, 2, 0] (1 * pg_attn_block_batch_stride scenario_info + 0) = Some 1"
    and c: "pg_attn_cache_block_stride scenario_info = 64"
    by (simp_all add: scenario_info_def index_at_def)
  have n: "pg_attn_block_tables_ptr (scenario_info\<lparr>pg_attn_block_tables_ptr := None\<rparr>) = None"
    and k: "k_offset (scenario_info\<lparr>pg_attn_block_tables_ptr := None\<rparr>) (1000 :: 64 word) 16 1
              = 1000"
    by (simp_all add: scenario_info_def k_offset_def)
  show ?thesis
    using t i c n k
      k_offset_pg_schemes [of scenario_info "1000 :: 64 word" 16 1 0 4 0 0 "[2, 0, 1, 1, 2, 0]" 1
        9 7 3 2]
      k_offset_pg_schemes [of "scenario_info\<lparr>pg_attn_block_tables_ptr := None\<rparr>"
        "1000 :: 64 word" 16 1 2 4 0 0 "[]" 0 0 0 0 0]
    by simp
qed

section \<open>The delta to the page before\<close>

text \<open>
  Claim C3, as the code has it, for an \<^verbatim>\<open>index_t\<close> at least as wide as \<^verbatim>\<open>int\<close>.
  Without a page table, \<open>k_advance_offset_pg\<close> returns
  \<open>-(k_block_n * row_stride)\<close> converted to \<^verbatim>\<open>int\<close>, its return type: the low 32
  bits. Where \<open>-(k_block_n * row_stride)\<close> is representable as \<^verbatim>\<open>int\<close>, the delta
  is that value. With a page table and valid indices, it returns
  \<open>(table[i - 1] - table[i]) * pg_attn_cache_block_stride\<close> for
  \<open>i = bidb * pg_attn_block_batch_stride + current_block_id\<close>. In the scenario of
  the spec, the page table \<open>[[2, 0, 1], [1, 2, 0]]\<close> with the batch stride 3 and
  pages of 64 elements, the offset of the page 2 of the batch element 1 is 0 and
  the delta at the page 2 of the batch element 1 is 128.
\<close>

theorem k_advance_offset_pg_schemes:
  fixes row_stride :: "'w::len word"
  assumes "32 \<le> LENGTH('w)"
  shows
  "(pg_attn_block_tables_ptr bi = None \<longrightarrow>
      k_advance_offset_pg bi bidb current_block_id row_stride k_block_n
        = Some (ucast (- (scast k_block_n * row_stride)))
      \<and> (fits_int (- (scast k_block_n * row_stride)) \<longrightarrow>
           map_option scast (k_advance_offset_pg bi bidb current_block_id row_stride k_block_n)
             = Some (- (scast k_block_n * row_stride))))
   \<and> (pg_attn_block_tables_ptr bi = Some table
       \<and> index_at table (bidb * pg_attn_block_batch_stride bi + current_block_id - 1) = Some prev
       \<and> index_at table (bidb * pg_attn_block_batch_stride bi + current_block_id) = Some cur
       \<longrightarrow>
      k_advance_offset_pg bi bidb current_block_id row_stride k_block_n
        = Some ((prev - cur) * pg_attn_cache_block_stride bi))
   \<and> k_offset_pg scenario_info batch_stride row_stride 1 2 k_block_n = Some 0
   \<and> k_advance_offset_pg scenario_info 1 2 row_stride k_block_n = Some 128"
proof (intro conjI impI)
  assume "pg_attn_block_tables_ptr bi = None"
  then show none: "k_advance_offset_pg bi bidb current_block_id row_stride k_block_n
                     = Some (ucast (- (scast k_block_n * row_stride)))"
    by (simp add: k_advance_offset_pg_def ucast_minus_32 [OF assms])
  assume "fits_int (- (scast k_block_n * row_stride))"
  then show "map_option scast (k_advance_offset_pg bi bidb current_block_id row_stride k_block_n)
               = Some (- (scast k_block_n * row_stride))"
    by (simp add: none fits_int_def)
next
  assume "pg_attn_block_tables_ptr bi = Some table
          \<and> index_at table (bidb * pg_attn_block_batch_stride bi + current_block_id - 1)
              = Some prev
          \<and> index_at table (bidb * pg_attn_block_batch_stride bi + current_block_id) = Some cur"
  then show "k_advance_offset_pg bi bidb current_block_id row_stride k_block_n
               = Some ((prev - cur) * pg_attn_cache_block_stride bi)"
    by (simp add: k_advance_offset_pg_def algebra_simps)
qed (simp_all add: k_advance_offset_pg_def k_offset_pg_def scenario_info_def index_at_def)

theorem k_advance_offset_pg_schemes_witness:
  "32 \<le> LENGTH(64)
   \<and> pg_attn_block_tables_ptr padded_info = None
   \<and> fits_int (- (scast (4 :: int32) * (16 :: 64 word)))
   \<and> k_advance_offset_pg padded_info 1 2 (16 :: 64 word) 4 = Some (- 64)
   \<and> map_option scast (k_advance_offset_pg padded_info 1 2 (16 :: 64 word) 4)
        = Some (- (scast (4 :: int32) * (16 :: 64 word)))
   \<and> pg_attn_block_tables_ptr scenario_info = Some [2, 0, 1, 1, 2, 0]
   \<and> index_at [2, 0, 1, 1, 2, 0] (1 * pg_attn_block_batch_stride scenario_info + 2 - 1) = Some 2
   \<and> index_at [2, 0, 1, 1, 2, 0] (1 * pg_attn_block_batch_stride scenario_info + 2) = Some 0
   \<and> pg_attn_cache_block_stride scenario_info = 64
   \<and> k_advance_offset_pg scenario_info 1 2 (16 :: 64 word) 4 = Some ((2 - 0) * 64)
   \<and> k_advance_offset_pg scenario_info 1 2 (16 :: 64 word) 4 = Some 128
   \<and> k_offset_pg scenario_info (1000 :: 64 word) 16 1 2 4 = Some 0"
proof -
  have w: "32 \<le> LENGTH(64)" by simp
  have n: "pg_attn_block_tables_ptr padded_info = None"
    by (simp add: padded_info_def)
  have f: "fits_int (- (scast (4 :: int32) * (16 :: 64 word)))"
    by (simp add: fits_int_def)
  have t: "pg_attn_block_tables_ptr scenario_info = Some [2, 0, 1, 1, 2, 0]"
    and p: "index_at [2, 0, 1, 1, 2, 0] (1 * pg_attn_block_batch_stride scenario_info + 2 - 1)
              = Some 2"
    and i: "index_at [2, 0, 1, 1, 2, 0] (1 * pg_attn_block_batch_stride scenario_info + 2)
              = Some 0"
    and c: "pg_attn_cache_block_stride scenario_info = 64"
    by (simp_all add: scenario_info_def index_at_def)
  show ?thesis
    using w n f t p i c
      k_advance_offset_pg_schemes [OF w, where bi = padded_info and bidb = 1
        and current_block_id = 2 and row_stride = "16 :: 64 word" and k_block_n = 4
        and table = "[]" and prev = 0 and cur = 0 and batch_stride = "1000 :: 64 word"]
      k_advance_offset_pg_schemes [OF w, where bi = scenario_info and bidb = 1
        and current_block_id = 2 and row_stride = "16 :: 64 word" and k_block_n = 4
        and table = "[2, 0, 1, 1, 2, 0]" and prev = 2 and cur = 0
        and batch_stride = "1000 :: 64 word"]
    by simp
qed

text \<open>
  The claim as the spec states it, \<open>-(k_block_n * row_stride)\<close> for all
  arguments, fails for a 64-bit \<^verbatim>\<open>index_t\<close>, no page table, \<open>k_block_n = 1\<close> and
  the row stride \<open>2^32\<close>: the product is \<open>2^32\<close>, \<^verbatim>\<open>int(...)\<close> of it is 0, and the
  delta is 0, not \<open>-2^32\<close>.
\<close>

theorem k_advance_offset_pg_truncated_counterexample:
  "pg_attn_block_tables_ptr padded_info = None
   \<and> k_advance_offset_pg padded_info 0 1 (4294967296 :: 64 word) 1 = Some 0
   \<and> - (scast (1 :: int32) * (4294967296 :: 64 word)) = - 4294967296
   \<and> (scast (0 :: int32) :: 64 word) \<noteq> - (scast (1 :: int32) * (4294967296 :: 64 word))
   \<and> \<not> fits_int (- (scast (1 :: int32) * (4294967296 :: 64 word)))"
  by (simp add: padded_info_def k_advance_offset_pg_def fits_int_def)

section \<open>Paged and contiguous addressing under the identity table\<close>

text \<open>
  Claim C7, as the code has it. Let the page table map the page \<open>block_id\<close> of
  the batch element \<open>bidb\<close> to itself, let
  \<open>pg_attn_cache_block_stride = k_block_n * row_stride\<close>, and let the two \<^verbatim>\<open>int\<close>
  products \<open>block_id * pg_attn_cache_block_stride\<close> and \<open>block_id * k_block_n\<close>
  not overflow (no condition for an \<^verbatim>\<open>index_t\<close> of at most 32 bits, where all
  arithmetic wraps alike). Then the offset computed without the table is the
  offset computed with the table plus \<open>k_offset(batch_stride, row_stride, bidb)\<close>:
  the paged scheme has no base offset of the batch element. The two offsets are
  equal exactly when that base offset is 0.
\<close>

theorem paged_offset_identity_table:
  fixes row_stride :: "'w::len word"
  assumes identity:
      "index_at table (bidb * pg_attn_block_batch_stride bi + block_id) = Some block_id"
    and stride: "scast (pg_attn_cache_block_stride bi) = scast k_block_n * row_stride"
    and exact:
      "LENGTH('w) \<le> 32
       \<or> (sint (block_id * pg_attn_cache_block_stride bi)
              = sint block_id * sint (pg_attn_cache_block_stride bi)
          \<and> sint (block_id * k_block_n) = sint block_id * sint k_block_n)"
  shows "k_offset_pg (bi\<lparr>pg_attn_block_tables_ptr := Some table\<rparr>)
             batch_stride row_stride bidb block_id k_block_n
           = Some (scast (block_id * pg_attn_cache_block_stride bi))
         \<and> k_offset_pg (bi\<lparr>pg_attn_block_tables_ptr := None\<rparr>)
             batch_stride row_stride bidb block_id k_block_n
           = Some (k_offset bi batch_stride row_stride bidb
                   + scast (block_id * pg_attn_cache_block_stride bi))
         \<and> (k_offset_pg (bi\<lparr>pg_attn_block_tables_ptr := Some table\<rparr>)
               batch_stride row_stride bidb block_id k_block_n
             = k_offset_pg (bi\<lparr>pg_attn_block_tables_ptr := None\<rparr>)
                 batch_stride row_stride bidb block_id k_block_n)
           = (k_offset bi batch_stride row_stride bidb = 0)"
proof -
  have "(scast (block_id * pg_attn_cache_block_stride bi) :: 'w word)
          = scast block_id * scast (pg_attn_cache_block_stride bi)"
    using exact by (intro scast_mult_exact) blast
  moreover have "(scast (block_id * k_block_n) :: 'w word) = scast block_id * scast k_block_n"
    using exact by (intro scast_mult_exact) blast
  ultimately have page: "scast (block_id * k_block_n) * row_stride
                           = (scast (block_id * pg_attn_cache_block_stride bi) :: 'w word)"
    by (simp add: stride mult.assoc)
  have paged: "k_offset_pg (bi\<lparr>pg_attn_block_tables_ptr := Some table\<rparr>)
                   batch_stride row_stride bidb block_id k_block_n
                 = Some (scast (block_id * pg_attn_cache_block_stride bi))"
    using identity by (simp add: k_offset_pg_def)
  have contiguous: "k_offset_pg (bi\<lparr>pg_attn_block_tables_ptr := None\<rparr>)
                   batch_stride row_stride bidb block_id k_block_n
                 = Some (k_offset bi batch_stride row_stride bidb
                         + scast (block_id * pg_attn_cache_block_stride bi))"
    by (simp add: k_offset_pg_def k_offset_def page)
  show ?thesis
    unfolding paged contiguous by simp
qed

theorem paged_offset_identity_table_witness:
  "index_at [0, 1, 0, 1] (0 * pg_attn_block_batch_stride identity_table_info + 1) = Some 1
   \<and> (scast (pg_attn_cache_block_stride identity_table_info) :: 64 word) = scast (4 :: int32) * 1
   \<and> sint ((1 :: int32) * pg_attn_cache_block_stride identity_table_info)
        = sint (1 :: int32) * sint (pg_attn_cache_block_stride identity_table_info)
   \<and> sint ((1 :: int32) * 4) = sint (1 :: int32) * sint (4 :: int32)
   \<and> k_offset identity_table_info (100 :: 64 word) 1 0 = 0
   \<and> k_offset_pg (identity_table_info\<lparr>pg_attn_block_tables_ptr := Some [0, 1, 0, 1]\<rparr>)
         (100 :: 64 word) 1 0 1 4
       = k_offset_pg (identity_table_info\<lparr>pg_attn_block_tables_ptr := None\<rparr>)
           (100 :: 64 word) 1 0 1 4"
proof -
  have identity:
    "index_at [0, 1, 0, 1] (0 * pg_attn_block_batch_stride identity_table_info + 1) = Some 1"
    by (simp add: identity_table_info_def index_at_def)
  have stride:
    "(scast (pg_attn_cache_block_stride identity_table_info) :: 64 word) = scast (4 :: int32) * 1"
    by (simp add: identity_table_info_def)
  have exact:
    "LENGTH(64) \<le> 32
     \<or> (sint ((1 :: int32) * pg_attn_cache_block_stride identity_table_info)
           = sint (1 :: int32) * sint (pg_attn_cache_block_stride identity_table_info)
        \<and> sint ((1 :: int32) * 4) = sint (1 :: int32) * sint (4 :: int32))"
    by (simp add: identity_table_info_def)
  have base: "k_offset identity_table_info (100 :: 64 word) 1 0 = 0"
    by (simp add: k_offset_def identity_table_info_def)
  show ?thesis
    using identity stride exact base
      paged_offset_identity_table [OF identity stride exact, of 100]
    by simp
qed

text \<open>
  The claim as the spec states it, equal offsets for every valid batch index,
  fails at the batch index 1 of padded sequences with the batch stride 100:
  under the identity table \<open>[[0, 1], [0, 1]]\<close> and pages of \<open>4 = 4 * 1\<close> elements
  the page 1 is at the offset 4 with the table and at \<open>100 + 4\<close> without it.
\<close>

theorem paged_offset_batch_base_counterexample:
  "BlockInfo_init True identity_table_params 1 None = Some identity_table_info
   \<and> pg_attn_block_tables_ptr identity_table_info = Some [0, 1, 0, 1]
   \<and> index_at [0, 1, 0, 1] (0 * pg_attn_block_batch_stride identity_table_info + 0) = Some 0
   \<and> index_at [0, 1, 0, 1] (0 * pg_attn_block_batch_stride identity_table_info + 1) = Some 1
   \<and> index_at [0, 1, 0, 1] (1 * pg_attn_block_batch_stride identity_table_info + 0) = Some 0
   \<and> index_at [0, 1, 0, 1] (1 * pg_attn_block_batch_stride identity_table_info + 1) = Some 1
   \<and> (scast (pg_attn_cache_block_stride identity_table_info) :: 64 word) = scast (4 :: int32) * 1
   \<and> k_offset_pg identity_table_info (100 :: 64 word) 1 1 1 4 = Some 4
   \<and> k_offset_pg (identity_table_info\<lparr>pg_attn_block_tables_ptr := None\<rparr>)
         (100 :: 64 word) 1 1 1 4 = Some 104"
  by (simp add: identity_table_params_def identity_table_info_def init_defs
        k_offset_pg_def k_offset_def)

section \<open>Walking down the pages\<close>

text \<open>
  Claim C8, as the code has it. For an \<^verbatim>\<open>index_t\<close> at least as wide as \<^verbatim>\<open>int\<close>,
  with or without a page table: start at the offset of the page \<open>block_id\<close> and
  make \<open>n\<close> steps of the walk, all of them defined. Where every step is exact
  (every delta is representable as \<^verbatim>\<open>int\<close> and no \<^verbatim>\<open>int\<close> operation overflows), and
  always for a 32-bit \<^verbatim>\<open>index_t\<close>, the walk arrives at the offset of the terminal
  page \<open>block_id - n\<close>. In every case the offset of the terminal page is defined
  and agrees with the offset the walk arrives at in the low 32 bits.
\<close>

theorem advance_walk_reaches_terminal:
  fixes row_stride :: "'w::len word"
  assumes w: "32 \<le> LENGTH('w)"
    and start: "k_offset_pg bi batch_stride row_stride bidb block_id k_block_n = Some start"
    and walk: "advance_walk bi bidb row_stride k_block_n block_id n start = Some r"
  shows "(LENGTH('w) = 32 \<or> walk_exact bi bidb row_stride k_block_n block_id n \<longrightarrow>
            k_offset_pg bi batch_stride row_stride bidb (block_id - of_nat n) k_block_n
              = Some r)
         \<and> map_option ucast
             (k_offset_pg bi batch_stride row_stride bidb (block_id - of_nat n) k_block_n)
             = Some (ucast r :: int32)"
proof -
  from advance_walk_offsets [OF w walk start] obtain t
    where t: "k_offset_pg bi batch_stride row_stride bidb (block_id - of_nat n) k_block_n
                = Some t"
      and u: "(ucast t :: int32) = ucast r"
    by auto
  have "t = r" if "LENGTH('w) = 32"
    using that u by (rule ucast_inj_32)
  moreover have "t = r" if "walk_exact bi bidb row_stride k_block_n block_id n"
    using advance_walk_exact [OF w walk start that] t by simp
  ultimately show ?thesis
    using t u by auto
qed

text \<open>
  A walk of two steps through the page table of the scenario, from the page 2
  of the batch element 1, and one without a page table, from the page 3.
\<close>

theorem advance_walk_reaches_terminal_witness:
  "32 \<le> LENGTH(64)
   \<and> k_offset_pg scenario_info (1000 :: 64 word) 16 1 2 4 = Some 0
   \<and> k_advance_offset_pg scenario_info 1 2 (16 :: 64 word) 4 = Some 128
   \<and> k_advance_offset_pg scenario_info 1 1 (16 :: 64 word) 4 = Some (- 64)
   \<and> advance_walk scenario_info 1 (16 :: 64 word) 4 2 2 0 = Some 64
   \<and> walk_exact scenario_info 1 (16 :: 64 word) 4 2 2
   \<and> k_offset_pg scenario_info (1000 :: 64 word) 16 1 (2 - of_nat 2) 4 = Some 64
   \<and> k_offset_pg padded_info (1000 :: 64 word) 16 1 3 4 = Some 1192
   \<and> k_advance_offset_pg padded_info 1 3 (16 :: 64 word) 4 = Some (- 64)
   \<and> advance_walk padded_info 1 (16 :: 64 word) 4 3 2 1192 = Some 1064
   \<and> walk_exact padded_info 1 (16 :: 64 word) 4 3 2
   \<and> k_offset_pg padded_info (1000 :: 64 word) 16 1 (3 - of_nat 2) 4 = Some 1064"
proof -
  have w: "32 \<le> LENGTH(64)" by simp
  have start: "k_offset_pg scenario_info (1000 :: 64 word) 16 1 2 4 = Some 0"
    by (simp add: k_offset_pg_def scenario_info_def index_at_def)
  have d2: "k_advance_offset_pg scenario_info 1 2 (16 :: 64 word) 4 = Some 128"
    and d1: "k_advance_offset_pg scenario_info 1 1 (16 :: 64 word) 4 = Some (- 64)"
    by (simp_all add: k_advance_offset_pg_def scenario_info_def index_at_def)
  have walk: "advance_walk scenario_info 1 (16 :: 64 word) 4 2 2 0 = Some 64"
    unfolding numeral_2_eq_2
    by (simp add: k_advance_offset_pg_def scenario_info_def index_at_def)
  have exact: "walk_exact scenario_info 1 (16 :: 64 word) 4 2 2"
    unfolding numeral_2_eq_2
    by (simp add: step_exact_def scenario_info_def index_at_def)
  have start': "k_offset_pg padded_info (1000 :: 64 word) 16 1 3 4 = Some 1192"
    by (simp add: k_offset_pg_def k_offset_def padded_info_def)
  have d': "k_advance_offset_pg padded_info 1 3 (16 :: 64 word) 4 = Some (- 64)"
    by (simp add: k_advance_offset_pg_def padded_info_def)
  have walk': "advance_walk padded_info 1 (16 :: 64 word) 4 3 2 1192 = Some 1064"
    unfolding numeral_2_eq_2
    by (simp add: k_advance_offset_pg_def padded_info_def)
  have exact': "walk_exact padded_info 1 (16 :: 64 word) 4 3 2"
    unfolding numeral_2_eq_2
    by (simp add: step_exact_def fits_int_def padded_info_def)
  show ?thesis
    using w start d2 d1 walk exact start' d' walk' exact'
      advance_walk_reaches_terminal [OF w start walk]
      advance_walk_reaches_terminal [OF w start' walk']
    by simp
qed

text \<open>
  The claim as the spec states it, equal offsets for every configuration and all
  strides, fails for a 64-bit \<^verbatim>\<open>index_t\<close>, no page table and the row stride
  \<open>2^32\<close>: the page 1 is at the offset \<open>2^32\<close>, the delta \<open>-int(1 * 2^32)\<close> is 0,
  and the walk stays at \<open>2^32\<close>, while the page 0 is at the offset 0.
\<close>

theorem advance_walk_truncated_counterexample:
  "BlockInfo_init True padded_params 0 None = Some padded_info
   \<and> k_offset_pg padded_info (0 :: 64 word) 4294967296 0 1 1 = Some 4294967296
   \<and> k_advance_offset_pg padded_info 0 1 (4294967296 :: 64 word) 1 = Some 0
   \<and> advance_walk padded_info 0 (4294967296 :: 64 word) 1 1 1 4294967296 = Some 4294967296
   \<and> k_offset_pg padded_info (0 :: 64 word) 4294967296 0 0 1 = Some 0
   \<and> (4294967296 :: 64 word) \<noteq> 0
   \<and> \<not> step_exact padded_info 0 (4294967296 :: 64 word) 1 1"
  by (simp add: padded_params_def padded_info_def init_defs k_offset_pg_def k_offset_def
        k_advance_offset_pg_def step_exact_def fits_int_def)

section \<open>The member without an initialiser\<close>

text \<open>
  Claim C10. Nothing reads \<open>actual_batch_size\<close>. The constructor leaves it as it
  finds it and builds every other member the same from every such value; it
  builds the same from every \<^verbatim>\<open>Params\<close> whatever further members that type has
  (the extension of the record scheme). \<open>q_offset\<close>, \<open>k_offset\<close>, \<open>k_offset_pg\<close>
  and \<open>k_advance_offset_pg\<close> return the same for every value of the member, on
  all arguments.
\<close>

theorem actual_batch_size_unused:
  "BlockInfo_init Varlen params bidb u'
     = map_option (\<lambda>bi. bi\<lparr>actual_batch_size := u'\<rparr>) (BlockInfo_init Varlen params bidb u)
   \<and> BlockInfo_init Varlen (params\<lparr>Params.more := m\<rparr>) bidb u
       = BlockInfo_init Varlen params bidb u
   \<and> q_offset (bi\<lparr>actual_batch_size := a\<rparr>) batch_stride row_stride bidb
       = q_offset bi batch_stride row_stride bidb
   \<and> k_offset (bi\<lparr>actual_batch_size := a\<rparr>) batch_stride row_stride bidb
       = k_offset bi batch_stride row_stride bidb
   \<and> k_offset_pg (bi\<lparr>actual_batch_size := a\<rparr>) batch_stride row_stride bidb block_id k_block_n
       = k_offset_pg bi batch_stride row_stride bidb block_id k_block_n
   \<and> k_advance_offset_pg (bi\<lparr>actual_batch_size := a\<rparr>) bidb block_id row_stride k_block_n
       = k_advance_offset_pg bi bidb block_id row_stride k_block_n"
proof (intro conjI)
  show "BlockInfo_init Varlen params bidb u'
          = map_option (\<lambda>bi. bi\<lparr>actual_batch_size := u'\<rparr>) (BlockInfo_init Varlen params bidb u)"
    by (cases "init_sum_s_q Varlen params bidb"; cases "init_sum_s_k Varlen params bidb";
        cases "init_actual_seqlen_q Varlen params bidb (the (init_sum_s_q Varlen params bidb))";
        cases "init_seqlen_k_cache Varlen params bidb (the (init_sum_s_k Varlen params bidb))")
       (simp_all add: BlockInfo_init_def)
  show "BlockInfo_init Varlen (params\<lparr>Params.more := m\<rparr>) bidb u
          = BlockInfo_init Varlen params bidb u"
    by (simp add: BlockInfo_init_def init_more_update)
qed (simp_all add: q_offset_def k_offset_def k_offset_pg_def k_advance_offset_pg_def)

theorem actual_batch_size_unused_witness:
  "BlockInfo_init True scenario_params 1 (Some [4])
     = Some (scenario_info\<lparr>actual_batch_size := Some [4]\<rparr>)
   \<and> BlockInfo_init True (scenario_params\<lparr>Params.more := ()\<rparr>) 1 None = Some scenario_info
   \<and> q_offset (scenario_info\<lparr>actual_batch_size := Some [4]\<rparr>) (1000 :: 64 word) 16 1 = 80
   \<and> q_offset scenario_info (1000 :: 64 word) 16 1 = 80
   \<and> k_offset (scenario_info\<lparr>actual_batch_size := Some [4]\<rparr>) (1000 :: 64 word) 16 1 = 1000
   \<and> k_offset scenario_info (1000 :: 64 word) 16 1 = 1000
   \<and> k_offset_pg (scenario_info\<lparr>actual_batch_size := Some [4]\<rparr>) (1000 :: 64 word) 16 1 2 4
       = Some 0
   \<and> k_offset_pg scenario_info (1000 :: 64 word) 16 1 2 4 = Some 0
   \<and> k_advance_offset_pg (scenario_info\<lparr>actual_batch_size := Some [4]\<rparr>) 1 2
         (16 :: 64 word) 4 = Some 128
   \<and> k_advance_offset_pg scenario_info 1 2 (16 :: 64 word) 4 = Some 128"
proof -
  have built: "BlockInfo_init True scenario_params 1 None = Some scenario_info"
    by (simp add: scenario_params_def scenario_info_def init_defs)
  have "q_offset scenario_info (1000 :: 64 word) 16 1 = 80"
    and "k_offset scenario_info (1000 :: 64 word) 16 1 = 1000"
    and "k_offset_pg scenario_info (1000 :: 64 word) 16 1 2 4 = Some 0"
    and "k_advance_offset_pg scenario_info 1 2 (16 :: 64 word) 4 = Some 128"
    by (simp_all add: q_offset_def k_offset_def k_offset_pg_def k_advance_offset_pg_def
          scenario_info_def index_at_def)
  then show ?thesis
    using built
      actual_batch_size_unused [where Varlen = True and params = scenario_params and bidb = 1
        and u' = "Some [4]" and u = None and m = "()" and bi = scenario_info
        and a = "Some [4]" and batch_stride = "1000 :: 64 word" and row_stride = 16
        and block_id = 2 and k_block_n = 4]
    by simp
qed

end
